theory Spec2Isabelle
  imports Main "HOL-Library.Word"
begin

section \<open>Python values and exceptions used by \<^verbatim>\<open>pymkv/MKVTrack.py\<close>\<close>

text \<open>
  The values \<^verbatim>\<open>json.loads\<close> can return: \<^verbatim>\<open>None\<close>, booleans, integers, floats
  (as their IEEE-754 bit pattern), strings, lists and dicts. A dict decoded from a JSON
  object has string keys; it is kept as its items in order and looked up by key.
\<close>

datatype pyval =
    PNone
  | PBool bool
  | PInt int
  | PFloat "64 word"
  | PStr string
  | PList "pyval list"
  | PDict "(string \<times> pyval) list"

text \<open>
  What \<^verbatim>\<open>json.loads(sp.check_output([...]).decode())\<close> can raise before a value is
  there: the tool cannot be started (\<^verbatim>\<open>OSError\<close>), it exits with a non-zero status
  (\<^verbatim>\<open>CalledProcessError\<close>), its output is not UTF-8 (\<^verbatim>\<open>UnicodeDecodeError\<close>) or not
  JSON (\<^verbatim>\<open>JSONDecodeError\<close>).
\<close>

datatype probe_failure = OSError | CalledProcessError | UnicodeDecodeError | JSONDecodeError

text \<open>
  The exceptions. \<open>ValueError\<close>, \<open>IndexError\<close>, \<open>TypeError\<close> and \<open>FileNotFoundError\<close>
  carry the message the class gives them, except that \<open>IndexError\<close> is also what the
  interpreter raises for a sequence index out of range. \<open>KeyError\<close> carries the missing
  key. \<open>InterpTypeError\<close> is a \<^verbatim>\<open>TypeError\<close> raised by the interpreter (subscripting
  or \<^verbatim>\<open>len\<close> of a value that has none, a \<^verbatim>\<open>None\<close> in an argument list); its message
  depends on the interpreter's version and is left out. \<open>AttributeError\<close> is the
  assignment to a property that has no setter.
\<close>

datatype error =
    ValueError string
  | IndexError string
  | TypeError string
  | FileNotFoundError string
  | KeyError pyval
  | InterpTypeError
  | AttributeError
  | ProbeFailure probe_failure

text \<open>\<^verbatim>\<open>isinstance(e, ValueError)\<close>: the two decoding errors are subclasses of it.\<close>

fun is_ValueError :: "error \<Rightarrow> bool" where
  "is_ValueError (ValueError m) = True"
| "is_ValueError (ProbeFailure UnicodeDecodeError) = True"
| "is_ValueError (ProbeFailure JSONDecodeError) = True"
| "is_ValueError e = False"

fun is_FileNotFoundError :: "error \<Rightarrow> bool" where
  "is_FileNotFoundError (FileNotFoundError m) = True"
| "is_FileNotFoundError e = False"

text \<open>Sequencing of computations that may raise.\<close>

fun and_then :: "error + 'a \<Rightarrow> ('a \<Rightarrow> error + 'b) \<Rightarrow> error + 'b" where
  "and_then (Inl e) f = Inl e"
| "and_then (Inr x) f = f x"

text \<open>\<^verbatim>\<open>len(v)\<close>.\<close>

fun py_len :: "pyval \<Rightarrow> error + nat" where
  "py_len (PList xs) = Inr (length xs)"
| "py_len (PStr s) = Inr (length s)"
| "py_len (PDict kvs) = Inr (length (remdups (map fst kvs)))"
| "py_len v = Inl InterpTypeError"

text \<open>
  \<^verbatim>\<open>v[k]\<close> for a string \<open>k\<close>: only a dict can be subscripted by a string; a missing key
  raises \<^verbatim>\<open>KeyError\<close>, any other value \<^verbatim>\<open>TypeError\<close>.
\<close>

fun getitem_str :: "pyval \<Rightarrow> string \<Rightarrow> error + pyval" where
  "getitem_str (PDict kvs) k =
     (case map_of kvs k of None \<Rightarrow> Inl (KeyError (PStr k)) | Some v \<Rightarrow> Inr v)"
| "getitem_str v k = Inl InterpTypeError"

text \<open>
  \<^verbatim>\<open>v[i]\<close> for an integer \<open>i\<close>: a list or a string is indexed, a negative index
  counting from the end; a dict decoded from JSON has no integer key; any other value
  raises \<^verbatim>\<open>TypeError\<close>.
\<close>

definition seq_index :: "'a list \<Rightarrow> int \<Rightarrow> 'a option" where
  "seq_index xs i =
     (let n = int (length xs); j = (if i < 0 then n + i else i)
      in if 0 \<le> j \<and> j < n then Some (xs ! nat j) else None)"

fun getitem_int :: "pyval \<Rightarrow> int \<Rightarrow> error + pyval" where
  "getitem_int (PList xs) i =
     (case seq_index xs i of
        None \<Rightarrow> Inl (IndexError ''list index out of range'')
      | Some v \<Rightarrow> Inr v)"
| "getitem_int (PStr s) i =
     (case seq_index s i of
        None \<Rightarrow> Inl (IndexError ''string index out of range'')
      | Some c \<Rightarrow> Inr (PStr [c]))"
| "getitem_int (PDict kvs) i = Inl (KeyError (PInt i))"
| "getitem_int v i = Inl InterpTypeError"

section \<open>The collaborators\<close>

text \<open>
  What the class calls and does not define. \<open>expanduser\<close> and \<open>isfile\<close> are
  \<^verbatim>\<open>os.path\<close>'s. \<open>verify_supported\<close> (\<^verbatim>\<open>pymkv.Verifications\<close>) and \<open>is_ISO639_2\<close>
  (\<^verbatim>\<open>pymkv.ISO639_2\<close>) are imported by the class and used as truth values; their
  modules are not part of the source, so they are parameters. \<open>check_output_json cmd\<close>
  is \<^verbatim>\<open>json.loads(sp.check_output(cmd).decode())\<close>: the outcome of running the command
  and decoding its output. \<open>str_format v\<close> is \<^verbatim>\<open>'{}'.format(v)\<close>.
\<close>

record env =
  expanduser :: "string \<Rightarrow> string"
  isfile :: "string \<Rightarrow> bool"
  verify_supported :: "string \<Rightarrow> bool"
  is_ISO639_2 :: "string \<Rightarrow> bool"
  check_output_json :: "string list \<Rightarrow> probe_failure + pyval"
  str_format :: "pyval \<Rightarrow> string"

section \<open>The class \<^verbatim>\<open>MKVTrack\<close>\<close>

text \<open>
  The attributes of an instance. The fields \<open>file_path\<close>, \<open>track_id\<close>, \<open>language\<close>,
  \<open>tags\<close>, \<open>track_codec\<close> and \<open>track_type\<close> are the attributes \<^verbatim>\<open>_file_path\<close>,
  \<^verbatim>\<open>_track_id\<close>, \<^verbatim>\<open>_language\<close>, \<^verbatim>\<open>_tags\<close>, \<^verbatim>\<open>_track_codec\<close> and \<^verbatim>\<open>_track_type\<close>
  that the properties of these names read; \<open>None\<close> is Python's \<^verbatim>\<open>None\<close>.
\<close>

record MKVTrack =
  track_codec :: pyval
  track_type :: pyval
  mkvmerge_path :: string
  file_path :: "string option"
  track_id :: "int option"
  track_name :: "string option"
  language :: "string option"
  tags :: "string option"
  default_track :: bool
  forced_track :: bool
  no_chapters :: bool
  no_global_tags :: bool
  no_track_tags :: bool
  no_attachments :: bool

text \<open>
  The outcome of a method: it returns (\<open>Done\<close>) or raises (\<open>Raised\<close>). Both carry the
  instance as the method leaves it, since an assignment made before a \<^verbatim>\<open>raise\<close> stays,
  and the commands the method has run, in order.
\<close>

datatype result =
    Done MKVTrack "string list list"
  | Raised error MKVTrack "string list list"


fun commands_of :: "result \<Rightarrow> string list list" where
  "commands_of (Done s l) = l"
| "commands_of (Raised e s l) = l"

fun raises :: "(error \<Rightarrow> bool) \<Rightarrow> result \<Rightarrow> bool" where
  "raises K (Done s l) = False"
| "raises K (Raised e s l) = K e"

text \<open>Running a second method after a first one that returned.\<close>

fun after :: "result \<Rightarrow> (MKVTrack \<Rightarrow> result) \<Rightarrow> result" where
  "after (Raised e s l) f = Raised e s l"
| "after (Done s l) f =
     (case f s of
        Done s' l' \<Rightarrow> Done s' (l @ l')
      | Raised e s' l' \<Rightarrow> Raised e s' (l @ l'))"

subsection \<open>The setter of \<^verbatim>\<open>track_id\<close>\<close>

text \<open>
  \<^verbatim>\<open>0 <= track_id < len(info_json['tracks'])\<close>: a chained comparison, whose right part
  is evaluated only when the left part holds.
\<close>

definition index_in_range :: "int \<Rightarrow> pyval \<Rightarrow> error + bool" where
  "index_in_range tid info_json =
     (if 0 \<le> tid
      then and_then (getitem_str info_json ''tracks'')
             (\<lambda>tracks. and_then (py_len tracks) (\<lambda>n. Inr (tid < int n)))
      else Inr False)"

text \<open>\<^verbatim>\<open>info_json['tracks'][track_id][k]\<close>.\<close>

definition track_field :: "pyval \<Rightarrow> int \<Rightarrow> string \<Rightarrow> error + pyval" where
  "track_field info_json tid k =
     and_then (getitem_str info_json ''tracks'')
       (\<lambda>tracks. and_then (getitem_int tracks tid) (\<lambda>track. getitem_str track k))"

definition probe_command :: "MKVTrack \<Rightarrow> string \<Rightarrow> string list" where
  "probe_command self fp = [mkvmerge_path self, ''-J'', fp]"

definition track_id_setter :: "env \<Rightarrow> int \<Rightarrow> MKVTrack \<Rightarrow> result" where
  "track_id_setter e tid self =
     (case file_path self of
        None \<Rightarrow> Raised InterpTypeError self []
      | Some fp \<Rightarrow>
          (let cmd = probe_command self fp in
           case check_output_json e cmd of
             Inl pf \<Rightarrow> Raised (ProbeFailure pf) self [cmd]
           | Inr info_json \<Rightarrow>
               (case index_in_range tid info_json of
                  Inl err \<Rightarrow> Raised err self [cmd]
                | Inr False \<Rightarrow> Raised (IndexError ''track index out of range'') self [cmd]
                | Inr True \<Rightarrow>
                    (let self1 = self\<lparr>track_id := Some tid\<rparr> in
                     case track_field info_json tid ''codec'' of
                       Inl err \<Rightarrow> Raised err self1 [cmd]
                     | Inr codec \<Rightarrow>
                         (let self2 = self1\<lparr>track_codec := codec\<rparr> in
                          case track_field info_json tid ''type'' of
                            Inl err \<Rightarrow> Raised err self2 [cmd]
                          | Inr ty \<Rightarrow> Done (self2\<lparr>track_type := ty\<rparr>) [cmd])))))"

subsection \<open>The setter of \<^verbatim>\<open>file_path\<close>\<close>

text \<open>The message is the literal of the source: it has no \<^verbatim>\<open>.format(...)\<close>.\<close>

definition not_supported_message :: string where
  \<open>not_supported_message = ''"{}" is not a supported file''\<close>

definition file_path_setter :: "env \<Rightarrow> string \<Rightarrow> MKVTrack \<Rightarrow> result" where
  "file_path_setter e fp self =
     (let fp' = expanduser e fp in
      if \<not> verify_supported e fp' then Raised (ValueError not_supported_message) self []
      else track_id_setter e 0 (self\<lparr>file_path := Some fp'\<rparr>))"

subsection \<open>The setters of \<^verbatim>\<open>language\<close> and \<^verbatim>\<open>tags\<close>\<close>

definition language_setter :: "env \<Rightarrow> string option \<Rightarrow> MKVTrack \<Rightarrow> result" where
  "language_setter e lang self =
     (case lang of
        None \<Rightarrow> Done (self\<lparr>language := None\<rparr>) []
      | Some c \<Rightarrow>
          if is_ISO639_2 e c then Done (self\<lparr>language := Some c\<rparr>) []
          else Raised (ValueError ''not an ISO639-2 language code'') self [])"

text \<open>\<^verbatim>\<open>'"{}" is not of type str'.format(v)\<close> and \<^verbatim>\<open>'"{}" does not exist'.format(p)\<close>.\<close>

definition not_str_message :: "string \<Rightarrow> string" where
  \<open>not_str_message shown = ''"'' @ shown @ ''" is not of type str''\<close>

definition not_exist_message :: "string \<Rightarrow> string" where
  \<open>not_exist_message p = ''"'' @ p @ ''" does not exist''\<close>

definition tags_setter :: "env \<Rightarrow> pyval \<Rightarrow> MKVTrack \<Rightarrow> result" where
  "tags_setter e v self =
     (case v of
        PStr fp \<Rightarrow>
          (let fp' = expanduser e fp in
           if \<not> isfile e fp' then Raised (FileNotFoundError (not_exist_message fp')) self []
           else Done (self\<lparr>tags := Some fp'\<rparr>) [])
      | _ \<Rightarrow> Raised (TypeError (not_str_message (str_format e v))) self [])"

subsection \<open>The constructor\<close>

text \<open>
  The instance before \<^verbatim>\<open>__init__\<close> has assigned anything. An attribute that does not
  exist yet stands as \<open>None\<close>, \<open>False\<close> or the empty string; \<^verbatim>\<open>__init__\<close> assigns
  each attribute before any code reads it.
\<close>

definition new_instance :: MKVTrack where
  "new_instance =
     \<lparr>track_codec = PNone, track_type = PNone, mkvmerge_path = [],
      file_path = None, track_id = None, track_name = None, language = None, tags = None,
      default_track = False, forced_track = False, no_chapters = False,
      no_global_tags = False, no_track_tags = False, no_attachments = False\<rparr>"

definition MKVTrack_init ::
  "env \<Rightarrow> string \<Rightarrow> int \<Rightarrow> string option \<Rightarrow> string option \<Rightarrow> bool \<Rightarrow> bool \<Rightarrow> result" where
  "MKVTrack_init e fp tid name lang dflt forced =
     after
       (after
          (after
             (Done (new_instance\<lparr>track_codec := PNone, track_type := PNone,
                      mkvmerge_path := ''mkvmerge'', file_path := None\<rparr>) [])
             (file_path_setter e fp))
          (\<lambda>self. track_id_setter e tid (self\<lparr>track_id := None\<rparr>)))
       (\<lambda>self.
          after (language_setter e lang (self\<lparr>track_name := name, language := None\<rparr>))
            (\<lambda>self. Done (self\<lparr>tags := None, default_track := dflt, forced_track := forced,
                               no_chapters := False, no_global_tags := False,
                               no_track_tags := False, no_attachments := False\<rparr>) []))"

subsection \<open>Assignments by a caller\<close>




section \<open>Notions the properties are stated with\<close>






fun is_str :: "pyval \<Rightarrow> bool" where
  "is_str (PStr s) = True"
| "is_str v = False"

text \<open>\<^verbatim>\<open>p in m\<close> for two strings: \<open>p\<close> occurs in \<open>m\<close>.\<close>

fun contains :: "string \<Rightarrow> string \<Rightarrow> bool" where
  "contains [] p = (p = [])"
| "contains (c # cs) p = (take (length p) (c # cs) = p \<or> contains cs p)"

section \<open>An example environment\<close>

text \<open>
  The file \<^verbatim>\<open>sample.mkv\<close> has a video and an audio track; \<^verbatim>\<open>empty.mkv\<close> is a
  supported container with no track; for any other command the tool exits with a
  non-zero status. \<^verbatim>\<open>notes.txt\<close> exists and is not supported.
\<close>

definition sample_tracks :: "pyval list" where
  "sample_tracks =
     [PDict [(''codec'', PStr ''AVC''), (''type'', PStr ''video'')],
      PDict [(''codec'', PStr ''AAC''), (''type'', PStr ''audio'')]]"

definition sample_info :: pyval where
  "sample_info = PDict [(''tracks'', PList sample_tracks)]"

definition sample_env :: env where
  "sample_env =
     \<lparr>expanduser = (\<lambda>p. if p = ''~'' \<or> take 2 p = ''~/'' then ''/home/user'' @ drop 1 p else p),
      isfile = (\<lambda>p. p \<in> set [''/home/user/present.xml'', ''sample.mkv'', ''empty.mkv'', ''notes.txt'']),
      verify_supported = (\<lambda>p. p \<in> set [''sample.mkv'', ''empty.mkv'']),
      is_ISO639_2 = (\<lambda>c. c \<in> set [''eng'', ''fre'', ''ger'']),
      check_output_json =
        (\<lambda>cmd. if cmd = [''mkvmerge'', ''-J'', ''sample.mkv''] then Inr sample_info
               else if cmd = [''mkvmerge'', ''-J'', ''empty.mkv''] then Inr (PDict [(''tracks'', PList [])])
               else Inl CalledProcessError),
      str_format = (\<lambda>v. if v = PNone then ''None'' else if v = PInt 5 then ''5'' else [])\<rparr>"

definition sample_track :: MKVTrack where
  "sample_track =
     \<lparr>track_codec = PStr ''AVC'', track_type = PStr ''video'', mkvmerge_path = ''mkvmerge'',
      file_path = Some ''sample.mkv'', track_id = Some 0, track_name = None,
      language = None, tags = None, default_track = False, forced_track = False,
      no_chapters = False, no_global_tags = False, no_track_tags = False,
      no_attachments = False\<rparr>"

text \<open>The same environment when the tool exits with a non-zero status for every command.\<close>

definition failing_env :: env where
  "failing_env = sample_env\<lparr>check_output_json := (\<lambda>cmd. Inl CalledProcessError)\<rparr>"

text \<open>
  The instance after \<open>track_id = 1\<close> on \<open>sample_track\<close>.
\<close>

definition sample_track_1 :: MKVTrack where
  "sample_track_1 =
     sample_track\<lparr>track_id := Some 1, track_codec := PStr ''AAC'', track_type := PStr ''audio''\<rparr>"


text \<open>
  Environments in which the tool's output decodes to a response whose \<^verbatim>\<open>tracks\<close> entry
  is absent, a number, a string or an object.
\<close>

definition response_env :: "pyval \<Rightarrow> env" where
  "response_env info = sample_env\<lparr>check_output_json := (\<lambda>cmd. Inr info)\<rparr>"

section \<open>Facts about the example\<close>

lemma sample_probe:
  "check_output_json sample_env (probe_command sample_track ''sample.mkv'') = Inr sample_info"
  by (simp add: sample_env_def probe_command_def sample_track_def)

lemma sample_info_tracks: "getitem_str sample_info ''tracks'' = Inr (PList sample_tracks)"
  by (simp add: sample_info_def)

lemma sample_track_id_1:
  "track_id_setter sample_env 1 sample_track =
     Done (sample_track\<lparr>track_id := Some 1, track_codec := PStr ''AAC'',
             track_type := PStr ''audio''\<rparr>) [[''mkvmerge'', ''-J'', ''sample.mkv'']]"
  by (simp add: track_id_setter_def sample_track_def sample_env_def probe_command_def
      sample_info_def sample_tracks_def index_in_range_def track_field_def seq_index_def)

section \<open>The setter of \<^verbatim>\<open>track_id\<close>: what a call that returns has done\<close>

lemma track_id_setter_Done:
  assumes "track_id_setter e i s = Done s' l"
  shows "\<exists>f info c t. file_path s = Some f \<and> l = [probe_command s f] \<and>
     check_output_json e (probe_command s f) = Inr info \<and>
     index_in_range i info = Inr True \<and>
     track_field info i ''codec'' = Inr c \<and> track_field info i ''type'' = Inr t \<and>
     s' = s\<lparr>track_id := Some i, track_codec := c, track_type := t\<rparr>"
  using assms
  by (auto simp: track_id_setter_def Let_def split: option.splits sum.splits bool.splits)

section \<open>Properties\<close>

text \<open>
  C2. On an instance whose file the probe reports a list of tracks for, assigning
  \<open>track_id = i\<close> with \<open>i\<close> negative or at least the number of tracks raises
  \<^verbatim>\<open>IndexError('track index out of range')\<close> after one run of the probe and leaves
  the instance exactly as it was: the result carries the instance \<open>s\<close> itself.
\<close>

theorem track_id_out_of_range:
  assumes "file_path s = Some f"
    and "check_output_json e (probe_command s f) = Inr info"
    and "getitem_str info ''tracks'' = Inr (PList ts)"
    and "i < 0 \<or> int (length ts) \<le> i"
  shows "track_id_setter e i s =
           Raised (IndexError ''track index out of range'') s [probe_command s f]"
  using assms
  by (auto simp: track_id_setter_def index_in_range_def Let_def)

theorem track_id_out_of_range_witness:
  "track_id_setter sample_env 2 sample_track =
     Raised (IndexError ''track index out of range'') sample_track
       [[''mkvmerge'', ''-J'', ''sample.mkv'']] \<and>
   track_id_setter sample_env (- 1) sample_track =
     Raised (IndexError ''track index out of range'') sample_track
       [[''mkvmerge'', ''-J'', ''sample.mkv'']]"
proof -
  have f: "file_path sample_track = Some ''sample.mkv''"
    by (simp add: sample_track_def)
  have hi: "(2::int) < 0 \<or> int (length sample_tracks) \<le> 2"
    by (simp add: sample_tracks_def)
  have lo: "(- 1::int) < 0 \<or> int (length sample_tracks) \<le> - 1"
    by simp
  have c: "probe_command sample_track ''sample.mkv'' = [''mkvmerge'', ''-J'', ''sample.mkv'']"
    by (simp add: probe_command_def sample_track_def)
  show ?thesis
    using track_id_out_of_range [OF f sample_probe sample_info_tracks hi]
      track_id_out_of_range [OF f sample_probe sample_info_tracks lo]
    by (simp add: c)
qed

text \<open>
  C10. An assignment to \<open>track_id\<close> that returns leaves \<open>file_path\<close>, \<open>track_name\<close>,
  \<open>language\<close>, \<open>tags\<close>, the six flags and \<open>mkvmerge_path\<close> as they were.
\<close>

theorem track_id_setter_frame:
  assumes "track_id_setter e i s = Done s' l"
  shows "file_path s' = file_path s \<and> track_name s' = track_name s \<and>
         language s' = language s \<and> tags s' = tags s \<and>
         default_track s' = default_track s \<and> forced_track s' = forced_track s \<and>
         no_chapters s' = no_chapters s \<and> no_global_tags s' = no_global_tags s \<and>
         no_track_tags s' = no_track_tags s \<and> no_attachments s' = no_attachments s \<and>
         mkvmerge_path s' = mkvmerge_path s"
  using track_id_setter_Done [OF assms] by auto

theorem track_id_setter_frame_witness:
  "track_id_setter sample_env 1 sample_track =
     Done (sample_track\<lparr>track_id := Some 1, track_codec := PStr ''AAC'',
             track_type := PStr ''audio''\<rparr>) [[''mkvmerge'', ''-J'', ''sample.mkv'']] \<and>
   file_path (sample_track\<lparr>track_id := Some 1, track_codec := PStr ''AAC'',
             track_type := PStr ''audio''\<rparr>) = file_path sample_track"
  using track_id_setter_frame [OF sample_track_id_1] sample_track_id_1 by simp

text \<open>
  C5. Assigning \<open>language = c\<close> for a string \<open>c\<close> returns exactly when \<open>is_ISO639_2\<close>
  accepts \<open>c\<close>, and then stores \<open>c\<close> as it is; otherwise it raises
  \<^verbatim>\<open>ValueError('not an ISO639-2 language code')\<close> and the instance, its language
  included, is as before. Assigning \<^verbatim>\<open>None\<close> always returns and clears the field.
\<close>

theorem language_setter_contract:
  "(is_ISO639_2 e c \<longrightarrow> language_setter e (Some c) s = Done (s\<lparr>language := Some c\<rparr>) []) \<and>
   (\<not> is_ISO639_2 e c \<longrightarrow>
      language_setter e (Some c) s = Raised (ValueError ''not an ISO639-2 language code'') s []) \<and>
   language_setter e None s = Done (s\<lparr>language := None\<rparr>) []"
  by (simp add: language_setter_def)

theorem language_setter_contract_witness:
  "language_setter sample_env (Some ''eng'') sample_track =
     Done (sample_track\<lparr>language := Some ''eng''\<rparr>) [] \<and>
   language_setter sample_env (Some ''xyz'') (sample_track\<lparr>language := Some ''eng''\<rparr>) =
     Raised (ValueError ''not an ISO639-2 language code'')
       (sample_track\<lparr>language := Some ''eng''\<rparr>) [] \<and>
   language_setter sample_env None (sample_track\<lparr>language := Some ''eng''\<rparr>) =
     Done (sample_track\<lparr>language := None\<rparr>) []"
proof -
  have a: "is_ISO639_2 sample_env ''eng''" by (simp add: sample_env_def)
  have b: "\<not> is_ISO639_2 sample_env ''xyz''" by (simp add: sample_env_def)
  show ?thesis
    using language_setter_contract [of sample_env "''eng''" sample_track]
      language_setter_contract [of sample_env "''xyz''" "sample_track\<lparr>language := Some ''eng''\<rparr>"]
      a b
    by simp
qed

text \<open>
  C6. Assigning \<open>tags = v\<close> for a value \<open>v\<close> that is not a string raises
  \<^verbatim>\<open>TypeError\<close>, with the message made from \<open>v\<close> itself and the instance as it was.
  For a string \<open>p\<close> it raises \<^verbatim>\<open>FileNotFoundError\<close> exactly when \<open>isfile\<close> rejects
  the expansion of \<open>p\<close>, again with the instance as it was, and otherwise stores the
  expanded path. The outcome depends on the environment only through \<open>expanduser\<close>
  and \<open>isfile\<close> at that path: no command is run and nothing else is consulted.
\<close>

theorem tags_setter_contract:
  "(\<not> is_str v \<longrightarrow>
      tags_setter e v s = Raised (TypeError (not_str_message (str_format e v))) s []) \<and>
   raises is_FileNotFoundError (tags_setter e (PStr p) s) = (\<not> isfile e (expanduser e p)) \<and>
   (\<not> isfile e (expanduser e p) \<longrightarrow>
      tags_setter e (PStr p) s =
        Raised (FileNotFoundError (not_exist_message (expanduser e p))) s []) \<and>
   (isfile e (expanduser e p) \<longrightarrow>
      tags_setter e (PStr p) s = Done (s\<lparr>tags := Some (expanduser e p)\<rparr>) []) \<and>
   (expanduser e' p = expanduser e p \<and>
    isfile e' (expanduser e p) = isfile e (expanduser e p) \<longrightarrow>
      tags_setter e' (PStr p) s = tags_setter e (PStr p) s)"
  by (cases v) (simp_all add: tags_setter_def Let_def)

theorem tags_setter_contract_witness:
  "tags_setter sample_env (PInt 5) sample_track =
     Raised (TypeError (CHR 0x22 # ''5'' @ CHR 0x22 # '' is not of type str'')) sample_track [] \<and>
   tags_setter sample_env (PStr ''~/missing.xml'') sample_track =
     Raised (FileNotFoundError
               (CHR 0x22 # ''/home/user/missing.xml'' @ CHR 0x22 # '' does not exist''))
       sample_track [] \<and>
   tags_setter sample_env (PStr ''~/present.xml'') sample_track =
     Done (sample_track\<lparr>tags := Some ''/home/user/present.xml''\<rparr>) [] \<and>
   tags_setter (sample_env\<lparr>check_output_json := (\<lambda>cmd. Inl OSError)\<rparr>)
       (PStr ''~/present.xml'') sample_track =
     tags_setter sample_env (PStr ''~/present.xml'') sample_track"
proof -
  have a: "\<not> is_str (PInt 5)" by simp
  have b: "expanduser sample_env ''~/missing.xml'' = ''/home/user/missing.xml''"
    by (simp add: sample_env_def)
  have c: "expanduser sample_env ''~/present.xml'' = ''/home/user/present.xml''"
    by (simp add: sample_env_def)
  have d: "\<not> isfile sample_env ''/home/user/missing.xml''"
    by (simp add: sample_env_def)
  have e: "isfile sample_env ''/home/user/present.xml''"
    by (simp add: sample_env_def)
  have f: "str_format sample_env (PInt 5) = ''5''"
    by (simp add: sample_env_def)
  show ?thesis
    using tags_setter_contract [of "PInt 5" sample_env sample_track "''~/missing.xml''" sample_env]
      tags_setter_contract [of "PInt 5" sample_env sample_track "''~/present.xml''"
        "sample_env\<lparr>check_output_json := (\<lambda>cmd. Inl OSError)\<rparr>"]
      a b c d e f
    by (simp add: not_str_message_def not_exist_message_def)
qed

lemma sample_empty_1:
  "file_path_setter sample_env ''empty.mkv'' sample_track_1 =
     Raised (IndexError ''track index out of range'')
       (sample_track_1\<lparr>file_path := Some ''empty.mkv''\<rparr>) [[''mkvmerge'', ''-J'', ''empty.mkv'']]"
  by (simp add: Let_def file_path_setter_def track_id_setter_def probe_command_def
      index_in_range_def sample_env_def sample_track_1_def sample_track_def)

text \<open>
  C3, as the specification states it, fails. \<open>sample_track_1\<close> is \<open>sample_track\<close>
  after \<open>track_id = 1\<close>. The path \<^verbatim>\<open>empty.mkv\<close> passes \<open>verify_supported\<close> and its
  probe reports no track: assigning \<open>file_path = 'empty.mkv'\<close> raises \<^verbatim>\<open>IndexError\<close>
  with the new path stored, and \<open>track_id\<close> is still 1, \<open>track_codec\<close> still \<^verbatim>\<open>AAC\<close>
  and \<open>track_type\<close> still \<^verbatim>\<open>audio\<close>.
\<close>

theorem file_path_reset_counterexample:
  "track_id_setter sample_env 1 sample_track =
     Done sample_track_1 [[''mkvmerge'', ''-J'', ''sample.mkv'']] \<and>
   verify_supported sample_env (expanduser sample_env ''empty.mkv'') \<and>
   file_path_setter sample_env ''empty.mkv'' sample_track_1 =
     Raised (IndexError ''track index out of range'')
       (sample_track_1\<lparr>file_path := Some ''empty.mkv''\<rparr>) [[''mkvmerge'', ''-J'', ''empty.mkv'']] \<and>
   track_id (sample_track_1\<lparr>file_path := Some ''empty.mkv''\<rparr>) = Some 1 \<and>
   track_codec (sample_track_1\<lparr>file_path := Some ''empty.mkv''\<rparr>) = PStr ''AAC'' \<and>
   track_type (sample_track_1\<lparr>file_path := Some ''empty.mkv''\<rparr>) = PStr ''audio''"
  using sample_track_id_1 sample_empty_1
  by (simp add: sample_track_1_def sample_env_def)

text \<open>
  C3, amended. When the expansion of \<open>p\<close> passes \<open>verify_supported\<close> and the probe's
  inventory for it has a first record \<open>r\<close> with the fields \<^verbatim>\<open>codec\<close> and \<^verbatim>\<open>type\<close>,
  assigning \<open>file_path = p\<close> stores the expanded path, sets \<open>track_id\<close> to 0 and
  overwrites \<open>track_codec\<close> and \<open>track_type\<close> with the two fields of \<open>r\<close>, whatever
  \<open>track_id\<close> was before, after one run of the probe.
\<close>

theorem file_path_setter_resets:
  assumes "verify_supported e (expanduser e p)"
    and "check_output_json e [mkvmerge_path s, ''-J'', expanduser e p] = Inr info"
    and "getitem_str info ''tracks'' = Inr (PList (r # rs))"
    and "getitem_str r ''codec'' = Inr c"
    and "getitem_str r ''type'' = Inr t"
  shows "file_path_setter e p s =
           Done (s\<lparr>file_path := Some (expanduser e p), track_id := Some 0,
                   track_codec := c, track_type := t\<rparr>)
             [[mkvmerge_path s, ''-J'', expanduser e p]]"
  using assms
  by (simp add: file_path_setter_def track_id_setter_def probe_command_def Let_def
      index_in_range_def track_field_def seq_index_def)

theorem file_path_setter_resets_witness:
  "file_path_setter sample_env ''sample.mkv''
     (sample_track\<lparr>file_path := Some ''other.mkv'', track_id := Some 1,
        track_codec := PStr ''AAC'', track_type := PStr ''audio''\<rparr>) =
   Done sample_track [[''mkvmerge'', ''-J'', ''sample.mkv'']]"
proof -
  let ?s = "sample_track\<lparr>file_path := Some ''other.mkv'', track_id := Some 1,
        track_codec := PStr ''AAC'', track_type := PStr ''audio''\<rparr>"
  have x: "expanduser sample_env ''sample.mkv'' = ''sample.mkv''"
    by (simp add: sample_env_def)
  have a: "verify_supported sample_env (expanduser sample_env ''sample.mkv'')"
    by (simp add: sample_env_def)
  have b: "check_output_json sample_env
             [mkvmerge_path ?s, ''-J'', expanduser sample_env ''sample.mkv''] = Inr sample_info"
    by (simp add: sample_env_def sample_track_def)
  have c: "getitem_str sample_info ''tracks'' =
             Inr (PList (PDict [(''codec'', PStr ''AVC''), (''type'', PStr ''video'')] #
                         [PDict [(''codec'', PStr ''AAC''), (''type'', PStr ''audio'')]]))"
    by (simp add: sample_info_def sample_tracks_def)
  have d: "getitem_str (PDict [(''codec'', PStr ''AVC''), (''type'', PStr ''video'')]) ''codec''
             = Inr (PStr ''AVC'')"
    by simp
  have e: "getitem_str (PDict [(''codec'', PStr ''AVC''), (''type'', PStr ''video'')]) ''type''
             = Inr (PStr ''video'')"
    by simp
  show ?thesis
    using file_path_setter_resets [OF a b c d e]
    by (simp add: x sample_track_def)
qed

lemma track_id_setter_in_range:
  assumes "file_path s = Some f"
    and "check_output_json e (probe_command s f) = Inr info"
    and "getitem_str info ''tracks'' = Inr (PList ts)"
    and "0 \<le> i" and "i < int (length ts)"
    and "getitem_str (ts ! nat i) ''codec'' = Inr c"
    and "getitem_str (ts ! nat i) ''type'' = Inr t"
  shows "track_id_setter e i s =
           Done (s\<lparr>track_id := Some i, track_codec := c, track_type := t\<rparr>) [probe_command s f]"
  using assms
  by (simp add: track_id_setter_def Let_def index_in_range_def track_field_def seq_index_def)

text \<open>
  C1. Let the expansion of \<open>f\<close> pass \<open>verify_supported\<close> and let the probe report a
  list \<open>ts\<close> of tracks for it, with \<open>0 \<le> i < length ts\<close>. The constructor assigns
  \<open>track_id\<close> twice, first 0 (through the setter of \<open>file_path\<close>) and then \<open>i\<close>, so the
  records at 0 and at \<open>i\<close> are read: both have the fields \<^verbatim>\<open>codec\<close> and \<^verbatim>\<open>type\<close>, as
  every record of an inventory has. The language is \<^verbatim>\<open>None\<close> or an accepted code.
  Then the constructor returns, after two runs of the probe, the instance whose
  \<open>track_codec\<close> and \<open>track_type\<close> are the two fields of the record at \<open>i\<close>, whose
  \<open>track_id\<close> is \<open>i\<close> and whose \<open>file_path\<close> is the expanded path.
\<close>

theorem init_probes_track:
  assumes "verify_supported e (expanduser e f)"
    and "check_output_json e [''mkvmerge'', ''-J'', expanduser e f] = Inr info"
    and "getitem_str info ''tracks'' = Inr (PList ts)"
    and "0 \<le> i" and "i < int (length ts)"
    and "getitem_str (ts ! 0) ''codec'' = Inr c0"
    and "getitem_str (ts ! 0) ''type'' = Inr t0"
    and "getitem_str (ts ! nat i) ''codec'' = Inr c"
    and "getitem_str (ts ! nat i) ''type'' = Inr t"
    and "case lang of None \<Rightarrow> True | Some code \<Rightarrow> is_ISO639_2 e code"
  shows "MKVTrack_init e f i name lang dflt forced =
           Done \<lparr>track_codec = c, track_type = t, mkvmerge_path = ''mkvmerge'',
                 file_path = Some (expanduser e f), track_id = Some i, track_name = name,
                 language = lang, tags = None, default_track = dflt, forced_track = forced,
                 no_chapters = False, no_global_tags = False, no_track_tags = False,
                 no_attachments = False\<rparr>
             [[''mkvmerge'', ''-J'', expanduser e f], [''mkvmerge'', ''-J'', expanduser e f]]"
proof -
  let ?fp = "expanduser e f"
  let ?cmd = "[''mkvmerge'', ''-J'', ?fp]"
  let ?s0 = "new_instance\<lparr>track_codec := PNone, track_type := PNone,
               mkvmerge_path := ''mkvmerge'', file_path := None\<rparr>"
  let ?s1 = "?s0\<lparr>file_path := Some ?fp\<rparr>"
  let ?s2 = "?s1\<lparr>track_id := Some 0, track_codec := c0, track_type := t0\<rparr>"
  let ?s3 = "?s2\<lparr>track_id := None\<rparr>"
  let ?s4 = "?s3\<lparr>track_id := Some i, track_codec := c, track_type := t\<rparr>"
  have len: "(0::int) < int (length ts)"
    using assms(4,5) by linarith
  have p1: "check_output_json e (probe_command ?s1 ?fp) = Inr info"
    using assms(2) by (simp add: probe_command_def)
  have p3: "check_output_json e (probe_command ?s3 ?fp) = Inr info"
    using assms(2) by (simp add: probe_command_def)
  have first: "track_id_setter e 0 ?s1 = Done ?s2 [probe_command ?s1 ?fp]"
    using track_id_setter_in_range [of ?s1 ?fp e info ts 0 c0 t0] p1 assms(3,6,7) len
    by simp
  have fps: "file_path_setter e f ?s0 = Done ?s2 [?cmd]"
    using first assms(1) by (simp add: file_path_setter_def Let_def probe_command_def)
  have second: "track_id_setter e i ?s3 = Done ?s4 [?cmd]"
    using track_id_setter_in_range [of ?s3 ?fp e info ts i c t] p3 assms(3,4,5,8,9)
    by (simp add: probe_command_def)
  have lang: "language_setter e lang (?s4\<lparr>track_name := name, language := None\<rparr>) =
        Done (?s4\<lparr>track_name := name, language := lang\<rparr>) []"
    using assms(10) by (cases lang) (simp_all add: language_setter_def)
  have a1: "after (Done ?s0 []) (file_path_setter e f) = Done ?s2 [?cmd]"
    by (simp only: after.simps fps result.case append_Nil)
  have a2: "after (Done ?s2 [?cmd]) (\<lambda>self. track_id_setter e i (self\<lparr>track_id := None\<rparr>)) =
        Done ?s4 [?cmd, ?cmd]"
    by (simp only: after.simps second result.case append.simps)
  have a3: "after (Done ?s4 [?cmd, ?cmd])
        (\<lambda>self.
          after (language_setter e lang (self\<lparr>track_name := name, language := None\<rparr>))
            (\<lambda>self. Done (self\<lparr>tags := None, default_track := dflt, forced_track := forced,
                               no_chapters := False, no_global_tags := False,
                               no_track_tags := False, no_attachments := False\<rparr>) [])) =
        Done (?s4\<lparr>track_name := name, language := lang, tags := None, default_track := dflt,
                 forced_track := forced, no_chapters := False, no_global_tags := False,
                 no_track_tags := False, no_attachments := False\<rparr>) [?cmd, ?cmd]"
    by (simp only: after.simps lang result.case append.simps append_Nil2)
  show ?thesis
    unfolding MKVTrack_init_def a1 a2 a3
    by (simp add: new_instance_def)
qed


theorem init_probes_track_witness:
  "MKVTrack_init sample_env ''sample.mkv'' 1 None (Some ''eng'') True False =
     Done \<lparr>track_codec = PStr ''AAC'', track_type = PStr ''audio'', mkvmerge_path = ''mkvmerge'',
           file_path = Some ''sample.mkv'', track_id = Some 1, track_name = None,
           language = Some ''eng'', tags = None, default_track = True, forced_track = False,
           no_chapters = False, no_global_tags = False, no_track_tags = False,
           no_attachments = False\<rparr>
       [[''mkvmerge'', ''-J'', ''sample.mkv''], [''mkvmerge'', ''-J'', ''sample.mkv'']]"
proof -
  have x: "expanduser sample_env ''sample.mkv'' = ''sample.mkv''"
    by (simp add: sample_env_def)
  have a: "verify_supported sample_env (expanduser sample_env ''sample.mkv'')"
    by (simp add: sample_env_def)
  have b: "check_output_json sample_env
             [''mkvmerge'', ''-J'', expanduser sample_env ''sample.mkv''] = Inr sample_info"
    by (simp add: sample_env_def)
  have lo: "(0::int) \<le> 1" by simp
  have hi: "(1::int) < int (length sample_tracks)" by (simp add: sample_tracks_def)
  have c0: "getitem_str (sample_tracks ! 0) ''codec'' = Inr (PStr ''AVC'')"
    by (simp add: sample_tracks_def)
  have t0: "getitem_str (sample_tracks ! 0) ''type'' = Inr (PStr ''video'')"
    by (simp add: sample_tracks_def)
  have c1: "getitem_str (sample_tracks ! nat 1) ''codec'' = Inr (PStr ''AAC'')"
    by (simp add: sample_tracks_def)
  have t1: "getitem_str (sample_tracks ! nat 1) ''type'' = Inr (PStr ''audio'')"
    by (simp add: sample_tracks_def)
  have l: "case Some ''eng'' of None \<Rightarrow> True | Some code \<Rightarrow> is_ISO639_2 sample_env code"
    by (simp add: sample_env_def)
  show ?thesis
    using init_probes_track [OF a b sample_info_tracks lo hi c0 t0 c1 t1 l, of None True False]
    by (simp add: x)
qed

section \<open>Assignments to \<^verbatim>\<open>file_path\<close> that raise\<close>

lemma sample_init:
  "MKVTrack_init sample_env ''sample.mkv'' 0 None None False False =
     Done sample_track [[''mkvmerge'', ''-J'', ''sample.mkv''], [''mkvmerge'', ''-J'', ''sample.mkv'']]"
  by (simp add: Let_def MKVTrack_init_def new_instance_def file_path_setter_def track_id_setter_def
      language_setter_def probe_command_def index_in_range_def track_field_def seq_index_def
      sample_env_def sample_info_def sample_tracks_def sample_track_def)

lemma sample_empty:
  "file_path_setter sample_env ''empty.mkv'' sample_track =
     Raised (IndexError ''track index out of range'')
       (sample_track\<lparr>file_path := Some ''empty.mkv''\<rparr>) [[''mkvmerge'', ''-J'', ''empty.mkv'']]"
  by (simp add: Let_def file_path_setter_def track_id_setter_def probe_command_def
      index_in_range_def sample_env_def sample_track_def)

lemma sample_notes:
  "file_path_setter sample_env ''notes.txt'' sample_track =
     Raised (ValueError not_supported_message) sample_track []"
  by (simp add: Let_def file_path_setter_def sample_env_def)

lemma track_id_setter_Raised_frame:
  assumes "track_id_setter e i s = Raised err s' l"
  shows "file_path s' = file_path s \<and> mkvmerge_path s' = mkvmerge_path s \<and>
         track_name s' = track_name s \<and> language s' = language s \<and> tags s' = tags s \<and>
         default_track s' = default_track s \<and> forced_track s' = forced_track s \<and>
         no_chapters s' = no_chapters s \<and> no_global_tags s' = no_global_tags s \<and>
         no_track_tags s' = no_track_tags s \<and> no_attachments s' = no_attachments s"
  using assms
  by (auto simp: track_id_setter_def Let_def split: option.splits sum.splits bool.splits)

lemma getitem_str_not_ValueError: "getitem_str v k \<noteq> Inl (ValueError m)"
  by (cases v) (simp_all split: option.splits)

lemma getitem_int_not_ValueError: "getitem_int v i \<noteq> Inl (ValueError m)"
  by (cases v) (simp_all split: option.splits)

lemma py_len_not_ValueError: "py_len v \<noteq> Inl (ValueError m)"
  by (cases v) simp_all

lemma index_in_range_not_ValueError: "index_in_range i info \<noteq> Inl (ValueError m)"
proof (cases "getitem_str info ''tracks''")
  case (Inl err)
  then show ?thesis
    using getitem_str_not_ValueError [of info "''tracks''" m]
    by (simp add: index_in_range_def)
next
  case (Inr tracks)
  then show ?thesis
    using py_len_not_ValueError [of tracks m]
    by (cases "py_len tracks") (simp_all add: index_in_range_def)
qed

lemma track_field_not_ValueError: "track_field info i k \<noteq> Inl (ValueError m)"
proof (cases "getitem_str info ''tracks''")
  case (Inl err)
  then show ?thesis
    using getitem_str_not_ValueError [of info "''tracks''" m]
    by (simp add: track_field_def)
next
  case (Inr tracks)
  then show ?thesis
    using getitem_int_not_ValueError [of tracks i m] getitem_str_not_ValueError [of _ k m]
    by (cases "getitem_int tracks i") (simp_all add: track_field_def)
qed

lemma track_id_setter_not_ValueError:
  assumes "track_id_setter e i s = Raised err s' l"
  shows "err \<noteq> ValueError m"
  using assms index_in_range_not_ValueError [of i _ m] track_field_not_ValueError [of _ i _ m]
  by (auto simp: track_id_setter_def Let_def
      split: option.splits sum.splits bool.splits)

text \<open>
  C4, as the specification states it, fails. The instance \<open>sample_track\<close> is what the
  constructor returns for \<^verbatim>\<open>sample.mkv\<close>. Assigning \<open>file_path = 'empty.mkv'\<close>, a
  supported file with no track, raises \<^verbatim>\<open>IndexError\<close> from the cascaded assignment
  \<open>track_id = 0\<close>, which is not a \<^verbatim>\<open>ValueError\<close>, and the new path is already
  stored: the instance is not as it was.
\<close>

theorem file_path_failure_counterexample:
  "MKVTrack_init sample_env ''sample.mkv'' 0 None None False False =
     Done sample_track [[''mkvmerge'', ''-J'', ''sample.mkv''], [''mkvmerge'', ''-J'', ''sample.mkv'']] \<and>
   file_path_setter sample_env ''empty.mkv'' sample_track =
     Raised (IndexError ''track index out of range'')
       (sample_track\<lparr>file_path := Some ''empty.mkv''\<rparr>) [[''mkvmerge'', ''-J'', ''empty.mkv'']] \<and>
   \<not> is_ValueError (IndexError ''track index out of range'') \<and>
   file_path (sample_track\<lparr>file_path := Some ''empty.mkv''\<rparr>) \<noteq> file_path sample_track"
  using sample_init sample_empty by (simp add: sample_track_def)

text \<open>
  C4, amended. An assignment to \<open>file_path\<close> that raises does so in one of two ways.
  Either \<open>verify_supported\<close> rejects the expanded path: the error is the
  \<^verbatim>\<open>ValueError\<close> of the setter, no command was run and the instance is exactly as it
  was. Or \<open>verify_supported\<close> accepts it and the cascaded assignment \<open>track_id = 0\<close>
  raises: the error is that assignment's own and never a \<^verbatim>\<open>ValueError\<close> made by this
  class, the new expanded path is stored, and every attribute other than \<open>file_path\<close>,
  \<open>track_id\<close>, \<open>track_codec\<close> and \<open>track_type\<close> is as it was.
\<close>

theorem file_path_setter_failure:
  assumes "file_path_setter e p s = Raised err s' l"
  shows "(\<not> verify_supported e (expanduser e p) \<and>
            err = ValueError not_supported_message \<and> s' = s \<and> l = []) \<or>
         (verify_supported e (expanduser e p) \<and>
            track_id_setter e 0 (s\<lparr>file_path := Some (expanduser e p)\<rparr>) = Raised err s' l \<and>
            (\<forall>m. err \<noteq> ValueError m) \<and>
            file_path s' = Some (expanduser e p) \<and> mkvmerge_path s' = mkvmerge_path s \<and>
            track_name s' = track_name s \<and> language s' = language s \<and> tags s' = tags s \<and>
            default_track s' = default_track s \<and> forced_track s' = forced_track s \<and>
            no_chapters s' = no_chapters s \<and> no_global_tags s' = no_global_tags s \<and>
            no_track_tags s' = no_track_tags s \<and> no_attachments s' = no_attachments s)"
proof (cases "verify_supported e (expanduser e p)")
  case False
  then show ?thesis
    using assms by (simp add: file_path_setter_def Let_def)
next
  case True
  then have r: "track_id_setter e 0 (s\<lparr>file_path := Some (expanduser e p)\<rparr>) = Raised err s' l"
    using assms by (simp add: file_path_setter_def Let_def)
  show ?thesis
    using True r track_id_setter_Raised_frame [OF r] track_id_setter_not_ValueError [OF r]
    by simp
qed

theorem file_path_setter_failure_witness:
  "file_path_setter sample_env ''notes.txt'' sample_track =
     Raised (ValueError not_supported_message) sample_track [] \<and>
   \<not> verify_supported sample_env (expanduser sample_env ''notes.txt'') \<and>
   file_path_setter sample_env ''empty.mkv'' sample_track =
     Raised (IndexError ''track index out of range'')
       (sample_track\<lparr>file_path := Some ''empty.mkv''\<rparr>) [[''mkvmerge'', ''-J'', ''empty.mkv'']] \<and>
   verify_supported sample_env (expanduser sample_env ''empty.mkv'') \<and>
   file_path (sample_track\<lparr>file_path := Some ''empty.mkv''\<rparr>) =
     Some (expanduser sample_env ''empty.mkv'')"
  using file_path_setter_failure [OF sample_notes] file_path_setter_failure [OF sample_empty]
    sample_notes sample_empty
  by (simp add: sample_env_def)

text \<open>
  C9. The message of the \<^verbatim>\<open>ValueError\<close> for an unsupported file is the literal
  \<^verbatim>\<open>'"{}" is not a supported file'\<close>: the placeholder is never filled, so the message
  does not contain the offending path. For \<^verbatim>\<open>notes.txt\<close>, which \<open>verify_supported\<close>
  rejects, the message holds \<^verbatim>\<open>{}\<close> and not \<^verbatim>\<open>notes.txt\<close>.
\<close>

theorem unsupported_message_has_no_path:
  "file_path_setter sample_env ''notes.txt'' sample_track =
     Raised (ValueError not_supported_message) sample_track [] \<and>
   \<not> contains not_supported_message ''notes.txt'' \<and>
   contains not_supported_message ''{}''"
  using sample_notes by (simp add: not_supported_message_def)

section \<open>Failures of the probe\<close>

lemma sample_probe_fails:
  "track_id_setter failing_env 1 sample_track =
     Raised (ProbeFailure CalledProcessError) sample_track [[''mkvmerge'', ''-J'', ''sample.mkv'']]"
  by (simp add: Let_def track_id_setter_def failing_env_def probe_command_def sample_track_def)

lemma probe_fails:
  assumes "file_path s = Some f" and "check_output_json e (probe_command s f) = Inl pf"
  shows "track_id_setter e i s = Raised (ProbeFailure pf) s [probe_command s f]"
  using assms by (simp add: track_id_setter_def Let_def)

lemma tracks_unsized:
  assumes "file_path s = Some f" and "check_output_json e (probe_command s f) = Inr info"
    and "and_then (getitem_str info ''tracks'') py_len = Inl err"
  shows "track_id_setter e i s =
           Raised (if 0 \<le> i then err else IndexError ''track index out of range'') s
             [probe_command s f] \<and>
         (err = KeyError (PStr ''tracks'') \<or> err = InterpTypeError)"
proof -
  have kind: "err = KeyError (PStr ''tracks'') \<or> err = InterpTypeError"
  proof (cases "getitem_str info ''tracks''")
    case (Inl x)
    then show ?thesis
      using assms(3) by (cases info) (auto split: option.splits)
  next
    case (Inr v)
    then show ?thesis
      using assms(3) by (cases v) auto
  qed
  have "track_id_setter e i s =
           Raised (if 0 \<le> i then err else IndexError ''track index out of range'') s
             [probe_command s f]"
    using assms
    by (cases "getitem_str info ''tracks''")
      (auto simp: track_id_setter_def Let_def index_in_range_def)
  then show ?thesis using kind by simp
qed

lemma tracks_string:
  assumes "file_path s = Some f" and "check_output_json e (probe_command s f) = Inr info"
    and "getitem_str info ''tracks'' = Inr (PStr t)"
  shows "track_id_setter e i s =
           (if 0 \<le> i \<and> i < int (length t)
            then Raised InterpTypeError (s\<lparr>track_id := Some i\<rparr>) [probe_command s f]
            else Raised (IndexError ''track index out of range'') s [probe_command s f])"
  using assms
  by (simp add: track_id_setter_def Let_def index_in_range_def track_field_def seq_index_def)

lemma tracks_object:
  assumes "file_path s = Some f" and "check_output_json e (probe_command s f) = Inr info"
    and "getitem_str info ''tracks'' = Inr (PDict kvs)"
  shows "track_id_setter e i s =
           (if 0 \<le> i \<and> i < int (length (remdups (map fst kvs)))
            then Raised (KeyError (PInt i)) (s\<lparr>track_id := Some i\<rparr>) [probe_command s f]
            else Raised (IndexError ''track index out of range'') s [probe_command s f])"
  using assms
  by (simp add: track_id_setter_def Let_def index_in_range_def track_field_def)

lemma record_without_codec:
  assumes "file_path s = Some f" and "check_output_json e (probe_command s f) = Inr info"
    and "getitem_str info ''tracks'' = Inr (PList ts)"
    and "0 \<le> i" and "i < int (length ts)"
    and "getitem_str (ts ! nat i) ''codec'' = Inl errc"
  shows "track_id_setter e i s = Raised errc (s\<lparr>track_id := Some i\<rparr>) [probe_command s f] \<and>
         (errc = KeyError (PStr ''codec'') \<or> errc = InterpTypeError)"
proof -
  have kind: "errc = KeyError (PStr ''codec'') \<or> errc = InterpTypeError"
    using assms(6) by (cases "ts ! nat i") (auto split: option.splits)
  have "track_id_setter e i s = Raised errc (s\<lparr>track_id := Some i\<rparr>) [probe_command s f]"
    using assms
    by (simp add: track_id_setter_def Let_def index_in_range_def track_field_def seq_index_def)
  then show ?thesis using kind by simp
qed

lemma record_without_type:
  assumes "file_path s = Some f" and "check_output_json e (probe_command s f) = Inr info"
    and "getitem_str info ''tracks'' = Inr (PList ts)"
    and "0 \<le> i" and "i < int (length ts)"
    and "getitem_str (ts ! nat i) ''codec'' = Inr c"
    and "getitem_str (ts ! nat i) ''type'' = Inl errt"
  shows "track_id_setter e i s =
           Raised (KeyError (PStr ''type'')) (s\<lparr>track_id := Some i, track_codec := c\<rparr>)
             [probe_command s f] \<and>
         errt = KeyError (PStr ''type'')"
proof -
  have kind: "errt = KeyError (PStr ''type'')"
    using assms(6,7) by (cases "ts ! nat i") (auto split: option.splits)
  have "track_id_setter e i s =
          Raised errt (s\<lparr>track_id := Some i, track_codec := c\<rparr>) [probe_command s f]"
    using assms
    by (simp add: track_id_setter_def Let_def index_in_range_def track_field_def seq_index_def)
  then show ?thesis using kind by simp
qed

lemma init_first_assignment_raises:
  assumes "verify_supported e (expanduser e p)"
    and "track_id_setter e 0
           (new_instance\<lparr>mkvmerge_path := ''mkvmerge'', file_path := Some (expanduser e p)\<rparr>) =
         Raised err s' l"
  shows "MKVTrack_init e p i name lang dflt forced = Raised err s' l"
  using assms
  by (simp add: MKVTrack_init_def file_path_setter_def Let_def new_instance_def)

lemma init_probe_fails:
  assumes "verify_supported e (expanduser e p)"
    and "check_output_json e [''mkvmerge'', ''-J'', expanduser e p] = Inl pf"
  shows "raises (\<lambda>x. x = ProbeFailure pf) (MKVTrack_init e p i name lang dflt forced) \<and>
         commands_of (MKVTrack_init e p i name lang dflt forced) =
           [[''mkvmerge'', ''-J'', expanduser e p]]"
  using assms
  by (simp add: MKVTrack_init_def file_path_setter_def track_id_setter_def Let_def
      probe_command_def new_instance_def)

text \<open>
  C7, as the specification states it, fails. When the tool exits with a non-zero
  status, assigning \<open>track_id\<close> on \<open>sample_track\<close> raises \<^verbatim>\<open>CalledProcessError\<close>, which is
  not a \<^verbatim>\<open>ValueError\<close>.
\<close>

theorem probe_failure_counterexample:
  "check_output_json failing_env [''mkvmerge'', ''-J'', ''sample.mkv''] = Inl CalledProcessError \<and>
   track_id_setter failing_env 1 sample_track =
     Raised (ProbeFailure CalledProcessError) sample_track [[''mkvmerge'', ''-J'', ''sample.mkv'']] \<and>
   \<not> is_ValueError (ProbeFailure CalledProcessError)"
  using sample_probe_fails by (simp add: failing_env_def)

text \<open>
  C7, amended. A failure of the probe reaches the caller as the exception it is,
  after one run of the command; none of the cases below is the \<^verbatim>\<open>ValueError\<close> of an
  unsupported file. For an instance with a \<open>file_path\<close> and any index \<open>i\<close>:
  \<^item> when the command or the decoding of its output fails with \<open>pf\<close>, assigning
    \<open>track_id\<close> raises \<open>pf\<close> itself and the instance is as it was; of these failures only
    the two decoding errors are \<^verbatim>\<open>ValueError\<close>s, by subclassing;
  \<^item> when the decoded response has no \<^verbatim>\<open>tracks\<close> entry or one without a length, a
    non-negative \<open>i\<close> raises the error of that lookup, a \<^verbatim>\<open>KeyError\<close> or a \<^verbatim>\<open>TypeError\<close>,
    and a negative \<open>i\<close> raises \<^verbatim>\<open>IndexError\<close>; the instance is as it was;
  \<^item> when the \<^verbatim>\<open>tracks\<close> entry is a string, an \<open>i\<close> outside its length raises
    \<^verbatim>\<open>IndexError\<close> with the instance as it was, and an \<open>i\<close> inside it raises \<^verbatim>\<open>TypeError\<close>
    with \<open>track_id\<close> already set to \<open>i\<close> and nothing else changed;
  \<^item> when the \<^verbatim>\<open>tracks\<close> entry is an object, an \<open>i\<close> outside its number of keys raises
    \<^verbatim>\<open>IndexError\<close> with the instance as it was, and an \<open>i\<close> inside it raises \<^verbatim>\<open>KeyError\<close>
    with \<open>track_id\<close> already set to \<open>i\<close> and nothing else changed;
  \<^item> when the \<^verbatim>\<open>tracks\<close> entry is a list and the record at an \<open>i\<close> inside it has no
    \<^verbatim>\<open>codec\<close> field, the assignment raises the error of that lookup, a \<^verbatim>\<open>KeyError\<close> or
    a \<^verbatim>\<open>TypeError\<close>, with \<open>track_id\<close> already set to \<open>i\<close> and nothing else changed;
  \<^item> when that record has a \<^verbatim>\<open>codec\<close> field and no \<^verbatim>\<open>type\<close> field, the assignment
    raises \<^verbatim>\<open>KeyError\<close> with \<open>track_id\<close> already set to \<open>i\<close>, \<open>track_codec\<close> already set
    to that codec and nothing else changed.

  The constructor, for a supported path, raises whatever its first assignment
  \<open>track_id = 0\<close> raises, with the same commands run; when the probe fails with \<open>pf\<close>
  that is \<open>pf\<close> after one run.
\<close>

theorem probe_failure_surfaces:
  assumes "file_path s = Some f"
  shows "(check_output_json e (probe_command s f) = Inl pf \<longrightarrow>
            track_id_setter e i s = Raised (ProbeFailure pf) s [probe_command s f]) \<and>
         (check_output_json e (probe_command s f) = Inr info \<and>
          and_then (getitem_str info ''tracks'') py_len = Inl err \<longrightarrow>
            track_id_setter e i s =
              Raised (if 0 \<le> i then err else IndexError ''track index out of range'') s
                [probe_command s f] \<and>
            (err = KeyError (PStr ''tracks'') \<or> err = InterpTypeError)) \<and>
         (check_output_json e (probe_command s f) = Inr info \<and>
          getitem_str info ''tracks'' = Inr (PStr t) \<longrightarrow>
            track_id_setter e i s =
              (if 0 \<le> i \<and> i < int (length t)
               then Raised InterpTypeError (s\<lparr>track_id := Some i\<rparr>) [probe_command s f]
               else Raised (IndexError ''track index out of range'') s [probe_command s f])) \<and>
         (check_output_json e (probe_command s f) = Inr info \<and>
          getitem_str info ''tracks'' = Inr (PDict kvs) \<longrightarrow>
            track_id_setter e i s =
              (if 0 \<le> i \<and> i < int (length (remdups (map fst kvs)))
               then Raised (KeyError (PInt i)) (s\<lparr>track_id := Some i\<rparr>) [probe_command s f]
               else Raised (IndexError ''track index out of range'') s [probe_command s f])) \<and>
         (check_output_json e (probe_command s f) = Inr info \<and>
          getitem_str info ''tracks'' = Inr (PList ts) \<and> 0 \<le> i \<and> i < int (length ts) \<and>
          getitem_str (ts ! nat i) ''codec'' = Inl errc \<longrightarrow>
            track_id_setter e i s =
              Raised errc (s\<lparr>track_id := Some i\<rparr>) [probe_command s f] \<and>
            (errc = KeyError (PStr ''codec'') \<or> errc = InterpTypeError)) \<and>
         (check_output_json e (probe_command s f) = Inr info \<and>
          getitem_str info ''tracks'' = Inr (PList ts) \<and> 0 \<le> i \<and> i < int (length ts) \<and>
          getitem_str (ts ! nat i) ''codec'' = Inr c \<and>
          getitem_str (ts ! nat i) ''type'' = Inl errt \<longrightarrow>
            track_id_setter e i s =
              Raised (KeyError (PStr ''type'')) (s\<lparr>track_id := Some i, track_codec := c\<rparr>)
                [probe_command s f]) \<and>
         (verify_supported e (expanduser e p) \<and>
          check_output_json e [''mkvmerge'', ''-J'', expanduser e p] = Inl pf \<longrightarrow>
            raises (\<lambda>x. x = ProbeFailure pf) (MKVTrack_init e p i name lang dflt forced) \<and>
            commands_of (MKVTrack_init e p i name lang dflt forced) =
              [[''mkvmerge'', ''-J'', expanduser e p]]) \<and>
         (verify_supported e (expanduser e p) \<and>
          track_id_setter e 0
            (new_instance\<lparr>mkvmerge_path := ''mkvmerge'', file_path := Some (expanduser e p)\<rparr>) =
            Raised err' s' l \<longrightarrow>
            MKVTrack_init e p i name lang dflt forced = Raised err' s' l) \<and>
         is_ValueError (ProbeFailure pf) = (pf = UnicodeDecodeError \<or> pf = JSONDecodeError) \<and>
         \<not> is_ValueError (KeyError key) \<and> \<not> is_ValueError InterpTypeError \<and>
         \<not> is_ValueError (IndexError msg)"
proof -
  have d: "is_ValueError (ProbeFailure pf) = (pf = UnicodeDecodeError \<or> pf = JSONDecodeError)"
    by (cases pf) simp_all
  show ?thesis
    using probe_fails [OF assms, of e pf i] tracks_unsized [OF assms, of e info err i]
      tracks_string [OF assms, of e info t i] tracks_object [OF assms, of e info kvs i]
      record_without_codec [OF assms, of e info ts i errc]
      record_without_type [OF assms, of e info ts i c errt]
      init_probe_fails [of e p pf i name lang dflt forced]
      init_first_assignment_raises [of e p err' s' l i name lang dflt forced] d
    by simp
qed


theorem probe_failure_surfaces_witness:
  "track_id_setter failing_env 1 sample_track =
     Raised (ProbeFailure CalledProcessError) sample_track [[''mkvmerge'', ''-J'', ''sample.mkv'']] \<and>
   track_id_setter (response_env (PDict [])) 1 sample_track =
     Raised (KeyError (PStr ''tracks'')) sample_track [[''mkvmerge'', ''-J'', ''sample.mkv'']] \<and>
   track_id_setter (response_env (PDict [(''tracks'', PInt 2)])) 1 sample_track =
     Raised InterpTypeError sample_track [[''mkvmerge'', ''-J'', ''sample.mkv'']] \<and>
   track_id_setter (response_env (PDict [(''tracks'', PStr ''ab'')])) 5 sample_track =
     Raised (IndexError ''track index out of range'') sample_track
       [[''mkvmerge'', ''-J'', ''sample.mkv'']] \<and>
   track_id_setter (response_env (PDict [(''tracks'', PStr ''ab'')])) 1 sample_track =
     Raised InterpTypeError (sample_track\<lparr>track_id := Some 1\<rparr>)
       [[''mkvmerge'', ''-J'', ''sample.mkv'']] \<and>
   track_id_setter (response_env (PDict [(''tracks'', PDict [(''a'', PInt 1)])])) 0 sample_track =
     Raised (KeyError (PInt 0)) (sample_track\<lparr>track_id := Some 0\<rparr>)
       [[''mkvmerge'', ''-J'', ''sample.mkv'']] \<and>
   track_id_setter (response_env (PDict [(''tracks'', PList [PInt 7])])) 0 sample_track_1 =
     Raised InterpTypeError (sample_track_1\<lparr>track_id := Some 0\<rparr>)
       [[''mkvmerge'', ''-J'', ''sample.mkv'']] \<and>
   track_id_setter
       (response_env (PDict [(''tracks'', PList [PDict [(''codec'', PStr ''VP9'')]])])) 0
       sample_track_1 =
     Raised (KeyError (PStr ''type''))
       (sample_track_1\<lparr>track_id := Some 0, track_codec := PStr ''VP9''\<rparr>)
       [[''mkvmerge'', ''-J'', ''sample.mkv'']] \<and>
   raises (\<lambda>x. x = ProbeFailure CalledProcessError)
     (MKVTrack_init failing_env ''sample.mkv'' 1 None None False False) \<and>
   MKVTrack_init (response_env (PDict [])) ''sample.mkv'' 1 None None False False =
     Raised (KeyError (PStr ''tracks''))
       (new_instance\<lparr>mkvmerge_path := ''mkvmerge'', file_path := Some ''sample.mkv''\<rparr>)
       [[''mkvmerge'', ''-J'', ''sample.mkv'']]"
proof -
  let ?absent = "PDict []"
  let ?number = "PDict [(''tracks'', PInt 2)]"
  let ?string = "PDict [(''tracks'', PStr ''ab'')]"
  let ?object = "PDict [(''tracks'', PDict [(''a'', PInt 1)])]"
  have f: "file_path sample_track = Some ''sample.mkv''"
    by (simp add: sample_track_def)
  have c: "probe_command sample_track ''sample.mkv'' = [''mkvmerge'', ''-J'', ''sample.mkv'']"
    by (simp add: probe_command_def sample_track_def)
  have r: "\<And>info cmd. check_output_json (response_env info) cmd = Inr info"
    by (simp add: response_env_def)
  have x: "\<And>info. expanduser (response_env info) ''sample.mkv'' = ''sample.mkv'' \<and>
             verify_supported (response_env info) ''sample.mkv''"
    by (simp add: response_env_def sample_env_def)
  have p1: "check_output_json failing_env (probe_command sample_track ''sample.mkv'') =
              Inl CalledProcessError"
    by (simp add: failing_env_def)
  have p3: "verify_supported failing_env (expanduser failing_env ''sample.mkv'') \<and>
            check_output_json failing_env [''mkvmerge'', ''-J'', expanduser failing_env ''sample.mkv'']
              = Inl CalledProcessError"
    by (simp add: failing_env_def sample_env_def)
  have first: "track_id_setter (response_env ?absent) 0
                 (new_instance\<lparr>mkvmerge_path := ''mkvmerge'', file_path := Some ''sample.mkv''\<rparr>) =
               Raised (KeyError (PStr ''tracks''))
                 (new_instance\<lparr>mkvmerge_path := ''mkvmerge'', file_path := Some ''sample.mkv''\<rparr>)
                 [[''mkvmerge'', ''-J'', ''sample.mkv'']]"
    by (simp add: track_id_setter_def Let_def r probe_command_def index_in_range_def
        new_instance_def)
  have a1: "track_id_setter failing_env 1 sample_track =
     Raised (ProbeFailure CalledProcessError) sample_track [[''mkvmerge'', ''-J'', ''sample.mkv'']]"
    using probe_failure_surfaces [OF f, where e = failing_env and pf = CalledProcessError
        and i = 1] p1
    by (simp add: c)
  have a2: "track_id_setter (response_env ?absent) 1 sample_track =
     Raised (KeyError (PStr ''tracks'')) sample_track [[''mkvmerge'', ''-J'', ''sample.mkv'']]"
    using probe_failure_surfaces [OF f, where e = "response_env ?absent" and info = ?absent
        and err = "KeyError (PStr ''tracks'')" and i = 1]
    by (simp add: c r)
  have a3: "track_id_setter (response_env ?number) 1 sample_track =
     Raised InterpTypeError sample_track [[''mkvmerge'', ''-J'', ''sample.mkv'']]"
    using probe_failure_surfaces [OF f, where e = "response_env ?number" and info = ?number
        and err = InterpTypeError and i = 1]
    by (simp add: c r)
  have a4: "track_id_setter (response_env ?string) 5 sample_track =
     Raised (IndexError ''track index out of range'') sample_track
       [[''mkvmerge'', ''-J'', ''sample.mkv'']]"
    using probe_failure_surfaces [OF f, where e = "response_env ?string" and info = ?string
        and t = "''ab''" and i = 5]
    by (simp add: c r)
  have a5: "track_id_setter (response_env ?string) 1 sample_track =
     Raised InterpTypeError (sample_track\<lparr>track_id := Some 1\<rparr>)
       [[''mkvmerge'', ''-J'', ''sample.mkv'']]"
    using probe_failure_surfaces [OF f, where e = "response_env ?string" and info = ?string
        and t = "''ab''" and i = 1]
    by (simp add: c r)
  have a6: "track_id_setter (response_env ?object) 0 sample_track =
     Raised (KeyError (PInt 0)) (sample_track\<lparr>track_id := Some 0\<rparr>)
       [[''mkvmerge'', ''-J'', ''sample.mkv'']]"
    using probe_failure_surfaces [OF f, where e = "response_env ?object" and info = ?object
        and kvs = "[(''a'', PInt 1)]" and i = 0]
    by (simp add: c r)
  let ?bare = "PDict [(''tracks'', PList [PInt 7])]"
  let ?half = "PDict [(''tracks'', PList [PDict [(''codec'', PStr ''VP9'')]])]"
  have f1: "file_path sample_track_1 = Some ''sample.mkv''"
    by (simp add: sample_track_1_def sample_track_def)
  have c1: "probe_command sample_track_1 ''sample.mkv'' = [''mkvmerge'', ''-J'', ''sample.mkv'']"
    by (simp add: probe_command_def sample_track_1_def sample_track_def)
  have b1: "track_id_setter (response_env ?bare) 0 sample_track_1 =
     Raised InterpTypeError (sample_track_1\<lparr>track_id := Some 0\<rparr>)
       [[''mkvmerge'', ''-J'', ''sample.mkv'']]"
    using probe_failure_surfaces [OF f1, where e = "response_env ?bare" and info = ?bare
        and ts = "[PInt 7]" and errc = InterpTypeError and i = 0]
    by (simp add: c1 r)
  have b2: "track_id_setter (response_env ?half) 0 sample_track_1 =
     Raised (KeyError (PStr ''type''))
       (sample_track_1\<lparr>track_id := Some 0, track_codec := PStr ''VP9''\<rparr>)
       [[''mkvmerge'', ''-J'', ''sample.mkv'']]"
    using probe_failure_surfaces [OF f1, where e = "response_env ?half" and info = ?half
        and ts = "[PDict [(''codec'', PStr ''VP9'')]]" and c = "PStr ''VP9''"
        and errt = "KeyError (PStr ''type'')" and i = 0]
    by (simp add: c1 r)
  have a7: "raises (\<lambda>x. x = ProbeFailure CalledProcessError)
     (MKVTrack_init failing_env ''sample.mkv'' 1 None None False False)"
    using probe_failure_surfaces [OF f, where e = failing_env and pf = CalledProcessError
        and p = "''sample.mkv''" and i = 1 and name = None and lang = None and dflt = False
        and forced = False] p3
    by simp
  have a8: "MKVTrack_init (response_env ?absent) ''sample.mkv'' 1 None None False False =
     Raised (KeyError (PStr ''tracks''))
       (new_instance\<lparr>mkvmerge_path := ''mkvmerge'', file_path := Some ''sample.mkv''\<rparr>)
       [[''mkvmerge'', ''-J'', ''sample.mkv'']]"
    using probe_failure_surfaces [OF f, where e = "response_env ?absent"
        and p = "''sample.mkv''" and i = 1 and name = None and lang = None and dflt = False
        and forced = False and err' = "KeyError (PStr ''tracks'')"
        and s' = "new_instance\<lparr>mkvmerge_path := ''mkvmerge'', file_path := Some ''sample.mkv''\<rparr>"
        and l = "[[''mkvmerge'', ''-J'', ''sample.mkv'']]"] first x [of ?absent]
    by simp
  show ?thesis
    using a1 a2 a3 a4 a5 a6 b1 b2 a7 a8 by simp
qed

section \<open>\<^verbatim>\<open>track_codec\<close> and \<^verbatim>\<open>track_type\<close> against the probe\<close>



















end
